theory Spec2Isabelle
  imports Main "HOL-Library.Word"
begin

section \<open>Data model\<close>

text \<open>
  The use case of \<^verbatim>\<open>src/user/usecase/ucase.go\<close> works on the entities of package
  \<^verbatim>\<open>domain\<close> and on three injected capabilities: the user repository, the manager
  repository and the token adapter. A \<^verbatim>\<open>uuid.UUID\<close> is a \<^verbatim>\<open>[16]byte\<close>, here a 128-bit
  word whose zero value is \<open>0\<close>.
\<close>

type_synonym uuid = "128 word"

datatype UserRole = CustomerUserRole | AdminUserRole | SuperAdminUserRole

text \<open>
  The sentinel errors of the domain package, and every other error value the use case can
  hand back. The repositories of this code base return the error of the ORM call
  (\<^verbatim>\<open>r.db.WithContext(ctx).Save(user).Error\<close>), which is never one of the domain sentinels:
  \<open>RepoError\<close> carries its message. \<open>NilPointerPanic\<close> is Go's run-time panic on a field
  write through a nil pointer.
\<close>

datatype error =
    ItemNotFound
  | ItemAlreadyExist
  | UserWrongPassword
  | RepoError string
  | AdapterError string
  | NilPointerPanic

record Manager =
  ManagerId :: uuid
  Name :: string
  Nickname :: string
  ManagerUsername :: string

record User =
  Id :: uuid
  Role :: UserRole
  Username :: string
  Password :: string
  DeletedAt :: "nat option"
  Manager :: "Manager option"

text \<open>The request values of the use case (\<^verbatim>\<open>domain.CreateCustomerUser\<close> and so on).\<close>

record CreateCustomerUserIn =
  cc_Name :: string
  cc_Email :: string
  cc_Mobile :: string

record UpdateAdminPasswordIn =
  up_UserId :: uuid
  up_OldPassword :: string
  up_NewPassword :: string

record UpdateAdminInfoIn =
  ui_UserId :: uuid
  ui_Username :: string
  ui_Name :: string
  ui_Nickname :: string

record ForceUpdateAdminInfoIn =
  fu_UserId :: uuid
  fu_Username :: string
  fu_Name :: string
  fu_Nickname :: string
  fu_Password :: string

record SignInUserIn =
  si_Username :: string
  si_Password :: string

record CreateAdminUserIn =
  ca_Name :: string
  ca_Email :: string
  ca_Password :: string
  ca_Nickname :: string

section \<open>The environment of one use-case call\<close>

text \<open>
  Every call of a repository method is recorded, so that "no write was issued" and
  "the adapter was invoked once" are statements about the model.
\<close>

datatype Call =
    CallUserGetById uuid
  | CallUserGetByUsername string
  | CallUserSave User
  | CallUserTransaction
  | CallManagerGetById uuid
  | CallManagerSave Manager
  | CallTokenGenerate User

text \<open>
  The persistence store holds the two tables; \<open>calls\<close> is the record of the calls made
  so far. A roll-back restores the tables, never the record of calls.
\<close>

record World =
  users :: "User list"
  managers :: "Manager list"
  calls :: "Call list"

text \<open>
  What the use case does not decide itself is fixed by the environment of the call:
  \<^item> \<open>hashPassword\<close>, \<open>checkPassword\<close>: the credential scheme behind
    \<^verbatim>\<open>User.UpdatePassword\<close> and \<^verbatim>\<open>User.ComparePassword\<close> (the spec leaves it opaque);
  \<^item> \<open>Generate\<close>: the token adapter;
  \<^item> \<open>newUUID\<close>: the identifier that \<^verbatim>\<open>domain.CreateUser\<close> draws;
  \<^item> \<open>now\<close>: the clock read by \<^verbatim>\<open>User.Delete\<close>;
  \<^item> \<open>userSaveFirst\<close>: which of the two goroutines of an \<^verbatim>\<open>errgroup\<close> finishes first;
  \<^item> the faults: for each repository method whether the database call fails in this
    use-case call (a time-out, a lost connection), with the message of the error. A
    failing lookup also fixes the pointer it returns beside the error, since Go lets a
    method return both.
\<close>

record Env =
  hashPassword :: "string \<Rightarrow> string"
  checkPassword :: "string \<Rightarrow> string \<Rightarrow> bool"
  Generate :: "User \<Rightarrow> string \<times> error option"
  newUUID :: uuid
  now :: nat
  userSaveFirst :: bool
  UserGetByIdFault :: "(User option \<times> string) option"
  UserGetByUsernameFault :: "(User option \<times> string) option"
  UserSaveFault :: "string option"
  CommitFault :: "string option"
  ManagerGetByIdFault :: "(Manager option \<times> string) option"
  ManagerSaveFault :: "string option"

section \<open>Entities of the domain package\<close>

definition CreateUser :: "Env \<Rightarrow> UserRole \<Rightarrow> string \<Rightarrow> User" where
  \<comment> \<open>Modelled from the spec: \<^verbatim>\<open>domain.CreateUser\<close> is not in src. Spec 3: a User has a
      unique id (UUID), a username, a credential, a role and a soft-delete timestamp; it is
      created active, without credential and without loaded Manager.\<close>
  "CreateUser e role username =
     \<lparr>Id = newUUID e, Role = role, Username = username, Password = [],
      DeletedAt = None, Manager = None\<rparr>"

definition UpdatePassword :: "Env \<Rightarrow> User \<Rightarrow> string \<Rightarrow> User" where
  \<comment> \<open>Modelled from the spec: \<^verbatim>\<open>User.UpdatePassword\<close> is not in src. Spec 3 and 4.4: the
      credential is opaque and is overwritten.\<close>
  "UpdatePassword e u plain = u\<lparr>Password := hashPassword e plain\<rparr>"

definition ComparePassword :: "Env \<Rightarrow> User \<Rightarrow> string \<Rightarrow> bool" where
  \<comment> \<open>Modelled from the spec: \<^verbatim>\<open>User.ComparePassword\<close> is not in src. Spec 3: the
      credential is comparable, never read back.\<close>
  "ComparePassword e u plain = checkPassword e (Password u) plain"

definition IsCustomer :: "User \<Rightarrow> bool" where
  \<comment> \<open>Modelled from the spec: \<^verbatim>\<open>User.IsCustomer\<close> is not in src. Spec 4.6: "have the
      Customer role".\<close>
  "IsCustomer u = (Role u = CustomerUserRole)"

definition IsAdmin :: "User \<Rightarrow> bool" where
  \<comment> \<open>Modelled from the spec: \<^verbatim>\<open>User.IsAdmin\<close> is not in src. Spec 4.6: "have the Admin
      role".\<close>
  "IsAdmin u = (Role u = AdminUserRole)"

definition IsDeleted :: "User \<Rightarrow> bool" where
  \<comment> \<open>Modelled from the spec: \<^verbatim>\<open>User.IsDeleted\<close> is not in src. Spec 3: soft-delete
      flag/timestamp.\<close>
  "IsDeleted u = (DeletedAt u \<noteq> None)"

definition Delete :: "Env \<Rightarrow> User \<Rightarrow> User" where
  \<comment> \<open>Modelled from the spec: \<^verbatim>\<open>User.Delete\<close> is not in src. Spec 4.6: the entity is
      marked soft-deleted.\<close>
  "Delete e u = u\<lparr>DeletedAt := Some (now e)\<rparr>"

definition ExistsAdmin :: "User option \<Rightarrow> bool" where
  \<comment> \<open>Modelled from the spec: \<^verbatim>\<open>domain.ExistsAdmin\<close> is not in src. Spec 4.4: "must exist
      and have Admin-or-above role (helper predicate is admin-like)".\<close>
  "ExistsAdmin p =
     (case p of None \<Rightarrow> False
      | Some u \<Rightarrow> Role u = AdminUserRole \<or> Role u = SuperAdminUserRole)"

definition CreateManager :: "User \<Rightarrow> string \<Rightarrow> string \<Rightarrow> Manager" where
  \<comment> \<open>Modelled from the spec: \<^verbatim>\<open>domain.CreateManager\<close> is not in src. Spec 4.2: "an
      associated Manager(name, nickname, username=email) referencing the new user".\<close>
  "CreateManager u name nickname =
     \<lparr>ManagerId = Id u, Name = name, Nickname = nickname, ManagerUsername = Username u\<rparr>"

definition UpdateManagerInfo :: "User \<Rightarrow> string \<Rightarrow> string \<Rightarrow> string \<Rightarrow> User option" where
  \<comment> \<open>Modelled from the spec: \<^verbatim>\<open>User.UpdateManagerInfo\<close> is not in src. Spec 4.5: "Apply
      username/name/nickname to both the User and Manager views". The Manager is reached
      through the pointer \<^verbatim>\<open>user.Manager\<close>; \<open>None\<close> is the panic of writing through it when
      it is nil.\<close>
  "UpdateManagerInfo u username name nickname =
     (case Manager u of
        None \<Rightarrow> None
      | Some m \<Rightarrow>
          Some (u\<lparr>Username := username,
                  Manager := Some (m\<lparr>Name := name, Nickname := nickname,
                                    ManagerUsername := username\<rparr>)\<rparr>))"

section \<open>Repositories\<close>

text \<open>
  \<^verbatim>\<open>Save\<close> is an upsert on the primary key: the row with the same id is overwritten, a
  new id appends a row.
\<close>

fun upsertUser :: "User \<Rightarrow> User list \<Rightarrow> User list" where
  "upsertUser u [] = [u]"
| "upsertUser u (x # xs) = (if Id x = Id u then u # xs else x # upsertUser u xs)"

fun upsertManager :: "Manager \<Rightarrow> Manager list \<Rightarrow> Manager list" where
  "upsertManager m [] = [m]"
| "upsertManager m (x # xs) =
     (if ManagerId x = ManagerId m then m # xs else x # upsertManager m xs)"

text \<open>The row a lookup returns: the first one that matches (\<^verbatim>\<open>First(&entity)\<close>).\<close>

definition userById :: "User list \<Rightarrow> uuid \<Rightarrow> User option" where
  "userById us i = find (\<lambda>u. Id u = i) us"

definition userByUsername :: "User list \<Rightarrow> string \<Rightarrow> User option" where
  "userByUsername us name = find (\<lambda>u. Username u = name) us"

definition managerById :: "Manager list \<Rightarrow> uuid \<Rightarrow> Manager option" where
  "managerById ms i = find (\<lambda>m. ManagerId m = i) ms"

definition record_call :: "Call \<Rightarrow> World \<Rightarrow> World" where
  "record_call c w = w\<lparr>calls := calls w @ [c]\<rparr>"

definition userRepo_GetById :: "Env \<Rightarrow> World \<Rightarrow> uuid \<Rightarrow> World \<times> User option \<times> error option" where
  \<comment> \<open>Modelled from the spec: the user repository's \<^verbatim>\<open>GetById\<close> is not in src. Spec 6:
      \<^verbatim>\<open>GetById(id) -> Entity|absent, error\<close>; the shape is that of
      \<^verbatim>\<open>src/customer/repository/repo.go\<close>, where a missing record is \<^verbatim>\<open>(nil, nil)\<close>.\<close>
  "userRepo_GetById e w i =
     (let w' = record_call (CallUserGetById i) w in
      case UserGetByIdFault e of
        Some (p, msg) \<Rightarrow> (w', p, Some (RepoError msg))
      | None \<Rightarrow> (w', userById (users w) i, None))"

definition userRepo_GetByUsername ::
  "Env \<Rightarrow> World \<Rightarrow> string \<Rightarrow> World \<times> User option \<times> error option" where
  \<comment> \<open>After \<^verbatim>\<open>GetByUsername\<close> of \<^verbatim>\<open>src/customer/repository/repo.go\<close>: the first row with
      the username; \<^verbatim>\<open>gorm.ErrRecordNotFound\<close> becomes \<^verbatim>\<open>(nil, nil)\<close>, any other error is
      returned beside a pointer. There the pointer beside an error is never nil; the method
      of the user repository itself is not in src, so the environment fixes the pointer.\<close>
  "userRepo_GetByUsername e w name =
     (let w' = record_call (CallUserGetByUsername name) w in
      case UserGetByUsernameFault e of
        Some (p, msg) \<Rightarrow> (w', p, Some (RepoError msg))
      | None \<Rightarrow> (w', userByUsername (users w) name, None))"

definition userRepo_Save :: "Env \<Rightarrow> World \<Rightarrow> User \<Rightarrow> World \<times> error option" where
  \<comment> \<open>\<^verbatim>\<open>return r.db.WithContext(ctx).Save(user).Error\<close>; the Manager association is not a
      column of the user row.\<close>
  "userRepo_Save e w u =
     (let w' = record_call (CallUserSave u) w in
      case UserSaveFault e of
        Some msg \<Rightarrow> (w', Some (RepoError msg))
      | None \<Rightarrow> (w'\<lparr>users := upsertUser (u\<lparr>Manager := None\<rparr>) (users w')\<rparr>, None))"

definition userRepo_Transaction ::
  "Env \<Rightarrow> World \<Rightarrow> (World \<Rightarrow> World \<times> error option) \<Rightarrow> World \<times> error option" where
  \<comment> \<open>\<^verbatim>\<open>r.db.WithContext(ctx).Transaction(func(tx) error { return fn(&repo{db: tx}) })\<close>:
      the block runs on the transaction; its error rolls the tables back, and so does a
      failing commit.\<close>
  "userRepo_Transaction e w fn =
     (let w0 = record_call CallUserTransaction w in
      case fn w0 of
        (w1, Some err) \<Rightarrow> (w1\<lparr>users := users w0, managers := managers w0\<rparr>, Some err)
      | (w1, None) \<Rightarrow>
          (case CommitFault e of
             Some msg \<Rightarrow> (w1\<lparr>users := users w0, managers := managers w0\<rparr>, Some (RepoError msg))
           | None \<Rightarrow> (w1, None)))"

definition managerRepo_GetById ::
  "Env \<Rightarrow> World \<Rightarrow> uuid \<Rightarrow> World \<times> Manager option \<times> error option" where
  \<comment> \<open>Modelled from the spec: the manager repository is not in src. Spec 6: "Manager
      repository mirrors the same shape".\<close>
  "managerRepo_GetById e w i =
     (let w' = record_call (CallManagerGetById i) w in
      case ManagerGetByIdFault e of
        Some (p, msg) \<Rightarrow> (w', p, Some (RepoError msg))
      | None \<Rightarrow> (w', managerById (managers w) i, None))"

definition managerRepo_Save :: "Env \<Rightarrow> World \<Rightarrow> Manager \<Rightarrow> World \<times> error option" where
  \<comment> \<open>Modelled from the spec: the manager repository is not in src. Spec 6:
      \<^verbatim>\<open>Save(Entity) -> error\<close> with upsert semantics; \<^verbatim>\<open>With(tx)\<close> joins the transaction of
      the user repository, which here is the one \<open>World\<close> both repositories write.\<close>
  "managerRepo_Save e w m =
     (let w' = record_call (CallManagerSave m) w in
      case ManagerSaveFault e of
        Some msg \<Rightarrow> (w', Some (RepoError msg))
      | None \<Rightarrow> (w'\<lparr>managers := upsertManager m (managers w')\<rparr>, None))"

definition LoadManagerInfo :: "Env \<Rightarrow> World \<Rightarrow> User \<Rightarrow> World \<times> User \<times> error option" where
  \<comment> \<open>Modelled from the spec: \<^verbatim>\<open>User.LoadManagerInfo\<close> is not in src. Spec 4.5: "load its
      Manager association", a lookup in the manager repository keyed by the user's id.\<close>
  "LoadManagerInfo e w u =
     (case managerRepo_GetById e w (Id u) of
        (w', m, Some err) \<Rightarrow> (w', u, Some err)
      | (w', m, None) \<Rightarrow> (w', u\<lparr>Manager := m\<rparr>, None))"

section \<open>errgroup\<close>

text \<open>
  \<^verbatim>\<open>g.Wait()\<close> returns the first non-nil error that one of the goroutines returned, in
  the order in which they finished.
\<close>

definition errgroup_Wait :: "error option \<Rightarrow> error option \<Rightarrow> error option" where
  "errgroup_Wait first second = (case first of Some err \<Rightarrow> Some err | None \<Rightarrow> second)"

definition saveUserAndManager :: "Env \<Rightarrow> World \<Rightarrow> User \<Rightarrow> Manager \<Rightarrow> World \<times> error option" where
  \<comment> \<open>The two \<^verbatim>\<open>g.Go\<close> closures and \<^verbatim>\<open>g.Wait()\<close>. Each Save is one statement on its own
      table; the goroutines finish in either order.\<close>
  "saveUserAndManager e w u m =
     (if userSaveFirst e then
        (case userRepo_Save e w u of
           (w1, r1) \<Rightarrow> (case managerRepo_Save e w1 m of
             (w2, r2) \<Rightarrow> (w2, errgroup_Wait r1 r2)))
      else
        (case managerRepo_Save e w m of
           (w1, r2) \<Rightarrow> (case userRepo_Save e w1 u of
             (w2, r1) \<Rightarrow> (w2, errgroup_Wait r2 r1))))"

section \<open>The use case\<close>

definition createUser :: "Env \<Rightarrow> UserRole \<Rightarrow> string \<Rightarrow> string \<Rightarrow> User" where
  "createUser e role username password =
     UpdatePassword e (CreateUser e role username) password"

definition CreateCustomerUser ::
  "Env \<Rightarrow> World \<Rightarrow> CreateCustomerUserIn \<Rightarrow> World \<times> uuid \<times> error option" where
  "CreateCustomerUser e w cu =
     (let user = createUser e CustomerUserRole (cc_Email cu) (cc_Mobile cu) in
      case userRepo_Transaction e w (\<lambda>tx. userRepo_Save e tx user) of
        (w', err) \<Rightarrow> (w', Id user, err))"

definition UpdateAdminPassword ::
  "Env \<Rightarrow> World \<Rightarrow> UpdateAdminPasswordIn \<Rightarrow> World \<times> error option" where
  "UpdateAdminPassword e w up =
     (case userRepo_GetById e w (up_UserId up) of
        (w1, user, err) \<Rightarrow>
          if \<not> ExistsAdmin user then (w1, Some ItemNotFound)
          else (case user of
                  None \<Rightarrow> (w1, Some NilPointerPanic)
                | Some u \<Rightarrow>
                    if \<not> ComparePassword e u (up_OldPassword up)
                    then (w1, Some UserWrongPassword)
                    else userRepo_Save e w1 (UpdatePassword e u (up_NewPassword up))))"

definition checkUsernameOwner :: "User option \<Rightarrow> uuid \<Rightarrow> error + User option" where
  \<comment> \<open>The block \<^verbatim>\<open>if exists != nil { if exists.Id == ui.UserId { user = exists } else
      { err = domain.ItemAlreadyExist; return } }\<close>, the same in both update paths.\<close>
  "checkUsernameOwner exists target =
     (case exists of
        None \<Rightarrow> Inr None
      | Some x \<Rightarrow> if Id x = target then Inr (Some x) else Inl ItemAlreadyExist)"

definition loadTarget ::
  "Env \<Rightarrow> World \<Rightarrow> User option \<Rightarrow> uuid \<Rightarrow> World \<times> User option \<times> error option" where
  \<comment> \<open>\<^verbatim>\<open>if user == nil { user, err = u.userRepo.GetById(c, ui.UserId) ... }\<close>\<close>
  "loadTarget e w user target =
     (case user of
        None \<Rightarrow> userRepo_GetById e w target
      | Some u \<Rightarrow> (w, Some u, None))"

definition UpdateAdminInfo :: "Env \<Rightarrow> World \<Rightarrow> UpdateAdminInfoIn \<Rightarrow> World \<times> error option" where
  "UpdateAdminInfo e w ui =
     (case userRepo_GetByUsername e w (ui_Username ui) of
        (w1, exists, Some err) \<Rightarrow> (w1, Some err)
      | (w1, exists, None) \<Rightarrow>
     (case checkUsernameOwner exists (ui_UserId ui) of
        Inl err \<Rightarrow> (w1, Some err)
      | Inr user0 \<Rightarrow>
     (case loadTarget e w1 user0 (ui_UserId ui) of
        (w2, user, Some err) \<Rightarrow> (w2, Some err)
      | (w2, user, None) \<Rightarrow>
          if \<not> ExistsAdmin user then (w2, Some ItemNotFound)
          else
     (case user of
        None \<Rightarrow> (w2, Some NilPointerPanic)
      | Some u \<Rightarrow>
     (case LoadManagerInfo e w2 u of
        (w3, u1, Some err) \<Rightarrow> (w3, Some err)
      | (w3, u1, None) \<Rightarrow>
     (case UpdateManagerInfo u1 (ui_Username ui) (ui_Name ui) (ui_Nickname ui) of
        None \<Rightarrow> (w3, Some NilPointerPanic)
      | Some u2 \<Rightarrow>
     (case Manager u2 of
        None \<Rightarrow> (w3, Some NilPointerPanic)
      | Some m \<Rightarrow> saveUserAndManager e w3 u2 m)))))))"

definition ForceUpdateAdminInfoBySuperAdmin ::
  "Env \<Rightarrow> World \<Rightarrow> ForceUpdateAdminInfoIn \<Rightarrow> World \<times> error option" where
  "ForceUpdateAdminInfoBySuperAdmin e w fu =
     (case userRepo_GetByUsername e w (fu_Username fu) of
        (w1, admin, Some err) \<Rightarrow> (w1, Some err)
      | (w1, admin, None) \<Rightarrow>
     (case checkUsernameOwner admin (fu_UserId fu) of
        Inl err \<Rightarrow> (w1, Some err)
      | Inr user0 \<Rightarrow>
     (case loadTarget e w1 user0 (fu_UserId fu) of
        (w2, user, Some err) \<Rightarrow> (w2, Some err)
      | (w2, user, None) \<Rightarrow>
          if \<not> ExistsAdmin user then (w2, Some ItemNotFound)
          else
     (case user of
        None \<Rightarrow> (w2, Some NilPointerPanic)
      | Some u \<Rightarrow>
     (case LoadManagerInfo e w2 (UpdatePassword e u (fu_Password fu)) of
        (w3, u1, Some err) \<Rightarrow> (w3, Some err)
      | (w3, u1, None) \<Rightarrow>
     (case UpdateManagerInfo u1 (fu_Username fu) (fu_Name fu) (fu_Nickname fu) of
        None \<Rightarrow> (w3, Some NilPointerPanic)
      | Some u2 \<Rightarrow>
     (case Manager u2 of
        None \<Rightarrow> (w3, Some NilPointerPanic)
      | Some m \<Rightarrow> saveUserAndManager e w3 u2 m)))))))"

definition SignInUser :: "Env \<Rightarrow> World \<Rightarrow> SignInUserIn \<Rightarrow> World \<times> string \<times> error option" where
  "SignInUser e w si =
     (case userRepo_GetByUsername e w (si_Username si) of
        (w1, user, Some err) \<Rightarrow> (w1, [], Some err)
      | (w1, None, None) \<Rightarrow> (w1, [], Some ItemNotFound)
      | (w1, Some u, None) \<Rightarrow>
          if ComparePassword e u (si_Password si)
          then (case Generate e u of
                  (token, err) \<Rightarrow> (record_call (CallTokenGenerate u) w1, token, err))
          else (w1, [], Some UserWrongPassword))"

definition DeleteCustomerUser :: "Env \<Rightarrow> World \<Rightarrow> uuid \<Rightarrow> World \<times> error option" where
  \<comment> \<open>The request \<^verbatim>\<open>domain.DeleteCustomerUser\<close> has the one field \<^verbatim>\<open>Id\<close>, passed here as
      \<open>i\<close>. The guard is \<^verbatim>\<open>user == nil || !user.IsCustomer()\<close>.\<close>
  "DeleteCustomerUser e w i =
     (case userRepo_GetById e w i of
        (w1, None, err) \<Rightarrow> (w1, Some ItemNotFound)
      | (w1, Some u, err) \<Rightarrow>
          if \<not> IsCustomer u then (w1, Some ItemNotFound)
          else userRepo_Save e w1 (Delete e u))"

definition CreateAdminUser ::
  "Env \<Rightarrow> World \<Rightarrow> CreateAdminUserIn \<Rightarrow> World \<times> uuid \<times> error option" where
  "CreateAdminUser e w au =
     (case userRepo_GetByUsername e w (ca_Email au) of
        (w1, Some x, err) \<Rightarrow> (w1, 0, Some ItemAlreadyExist)
      | (w1, None, err) \<Rightarrow>
          (let user = createUser e AdminUserRole (ca_Email au) (ca_Password au);
               manager = CreateManager user (ca_Name au) (ca_Nickname au)
           in case userRepo_Transaction e w1 (\<lambda>tx. saveUserAndManager e tx user manager) of
                (w2, err2) \<Rightarrow> (w2, Id user, err2)))"

definition DeleteAdminUser :: "Env \<Rightarrow> World \<Rightarrow> uuid \<Rightarrow> World \<times> error option" where
  \<comment> \<open>The request \<^verbatim>\<open>domain.DeleteAdminUser\<close> has the one field \<^verbatim>\<open>Id\<close>. The guard is
      \<^verbatim>\<open>user == nil || user.IsDeleted() || !user.IsAdmin()\<close>.\<close>
  "DeleteAdminUser e w i =
     (case userRepo_GetById e w i of
        (w1, None, err) \<Rightarrow> (w1, Some ItemNotFound)
      | (w1, Some u, err) \<Rightarrow>
          if IsDeleted u \<or> \<not> IsAdmin u then (w1, Some ItemNotFound)
          else userRepo_Save e w1 (Delete e u))"


section \<open>Auxiliary definitions\<close>

text \<open>Counting the calls of a kind in the record of calls.\<close>

fun isTokenGenerate :: "Call \<Rightarrow> bool" where
  "isTokenGenerate (CallTokenGenerate u) = True"
| "isTokenGenerate c = False"

fun isWrite :: "Call \<Rightarrow> bool" where
  "isWrite (CallUserSave u) = True"
| "isWrite CallUserTransaction = True"
| "isWrite (CallManagerSave m) = True"
| "isWrite c = False"

definition adapterCalls :: "World \<Rightarrow> nat" where
  "adapterCalls w = length (filter isTokenGenerate (calls w))"

definition writeCalls :: "World \<Rightarrow> nat" where
  "writeCalls w = length (filter isWrite (calls w))"

text \<open>
  The two stages that \<open>UpdateAdminInfo\<close> and \<open>ForceUpdateAdminInfoBySuperAdmin\<close> share,
  named so that a proof can treat them one at a time: finding the target (lookup by
  username, conflict rule, lookup by id, admin check), and loading, updating and saving
  it. \<open>UpdateAdminInfo_staged\<close> and \<open>ForceUpdate_staged\<close> below show that the use-case
  functions are these stages in sequence.
\<close>

definition resolveTarget :: "Env \<Rightarrow> World \<Rightarrow> string \<Rightarrow> uuid \<Rightarrow> World \<times> (error + User)" where
  "resolveTarget e w username target =
     (case userRepo_GetByUsername e w username of
        (w1, exists, Some err) \<Rightarrow> (w1, Inl err)
      | (w1, exists, None) \<Rightarrow>
     (case checkUsernameOwner exists target of
        Inl err \<Rightarrow> (w1, Inl err)
      | Inr user0 \<Rightarrow>
     (case loadTarget e w1 user0 target of
        (w2, user, Some err) \<Rightarrow> (w2, Inl err)
      | (w2, user, None) \<Rightarrow>
          if \<not> ExistsAdmin user then (w2, Inl ItemNotFound)
          else (case user of None \<Rightarrow> (w2, Inl NilPointerPanic) | Some u \<Rightarrow> (w2, Inr u)))))"

definition updateAndSave ::
  "Env \<Rightarrow> World \<Rightarrow> User \<Rightarrow> string \<Rightarrow> string \<Rightarrow> string \<Rightarrow> World \<times> error option" where
  "updateAndSave e w u username name nickname =
     (case LoadManagerInfo e w u of
        (w3, u1, Some err) \<Rightarrow> (w3, Some err)
      | (w3, u1, None) \<Rightarrow>
     (case UpdateManagerInfo u1 username name nickname of
        None \<Rightarrow> (w3, Some NilPointerPanic)
      | Some u2 \<Rightarrow>
     (case Manager u2 of
        None \<Rightarrow> (w3, Some NilPointerPanic)
      | Some m \<Rightarrow> saveUserAndManager e w3 u2 m)))"

section \<open>Example data\<close>

text \<open>
  A credential scheme, a token adapter, a store with one admin (and its Manager) and one
  customer, and an environment in which no database call fails: the inputs at which the
  theorems below are instantiated.
\<close>

definition demoHash :: "string \<Rightarrow> string" where
  "demoHash p = CHR ''#'' # p"

definition demoCheck :: "string \<Rightarrow> string \<Rightarrow> bool" where
  "demoCheck h p = (h = demoHash p)"

definition demoGenerate :: "User \<Rightarrow> string \<times> error option" where
  "demoGenerate u = (''token:'' @ Username u, None)"

definition demoEnv :: Env where
  "demoEnv = \<lparr>hashPassword = demoHash, checkPassword = demoCheck, Generate = demoGenerate,
     newUUID = 7, now = 100, userSaveFirst = True,
     UserGetByIdFault = None, UserGetByUsernameFault = None, UserSaveFault = None,
     CommitFault = None, ManagerGetByIdFault = None, ManagerSaveFault = None\<rparr>"

definition timeoutEnv :: Env where
  "timeoutEnv = demoEnv\<lparr>UserGetByIdFault := Some (None, ''context deadline exceeded'')\<rparr>"

definition userSaveFailsEnv :: Env where
  "userSaveFailsEnv = demoEnv\<lparr>UserSaveFault := Some ''connection lost''\<rparr>"

definition managerSaveFailsEnv :: Env where
  "managerSaveFailsEnv = demoEnv\<lparr>ManagerSaveFault := Some ''connection lost''\<rparr>"

definition brokenAdapterEnv :: Env where
  "brokenAdapterEnv = demoEnv\<lparr>Generate := (\<lambda>u. ([], Some (AdapterError ''no signing key'')))\<rparr>"

definition demoAdmin :: User where
  "demoAdmin = \<lparr>Id = 1, Role = AdminUserRole, Username = ''a@b.com'',
     Password = demoHash ''Pw1!'', DeletedAt = None, Manager = None\<rparr>"

definition demoManager :: Manager where
  "demoManager = \<lparr>ManagerId = 1, Name = ''Kim'', Nickname = ''K'', ManagerUsername = ''a@b.com''\<rparr>"

definition demoCustomer :: User where
  "demoCustomer = \<lparr>Id = 2, Role = CustomerUserRole, Username = ''c@d.com'',
     Password = demoHash ''01012345678'', DeletedAt = None, Manager = None\<rparr>"

definition demoWorld :: World where
  "demoWorld = \<lparr>users = [demoAdmin, demoCustomer], managers = [demoManager], calls = []\<rparr>"

definition newCustomerIn :: CreateCustomerUserIn where
  "newCustomerIn = \<lparr>cc_Name = ''Lee'', cc_Email = ''l@b.com'', cc_Mobile = ''01011112222''\<rparr>"

definition newAdminIn :: CreateAdminUserIn where
  "newAdminIn = \<lparr>ca_Name = ''Lee'', ca_Email = ''l@b.com'', ca_Password = ''Pw9!'', ca_Nickname = ''L''\<rparr>"

definition duplicateAdminIn :: CreateAdminUserIn where
  "duplicateAdminIn =
     \<lparr>ca_Name = ''Kim'', ca_Email = ''a@b.com'', ca_Password = ''Pw1!'', ca_Nickname = ''K''\<rparr>"

definition samePasswordIn :: UpdateAdminPasswordIn where
  "samePasswordIn = \<lparr>up_UserId = 1, up_OldPassword = ''Pw1!'', up_NewPassword = ''Pw1!''\<rparr>"

definition changePasswordIn :: UpdateAdminPasswordIn where
  "changePasswordIn = \<lparr>up_UserId = 1, up_OldPassword = ''Pw1!'', up_NewPassword = ''Pw2!''\<rparr>"

definition renameAdminIn :: UpdateAdminInfoIn where
  "renameAdminIn = \<lparr>ui_UserId = 1, ui_Username = ''a@b.com'', ui_Name = ''Kim J'', ui_Nickname = ''KJ''\<rparr>"

definition stealUsernameIn :: UpdateAdminInfoIn where
  "stealUsernameIn = \<lparr>ui_UserId = 1, ui_Username = ''c@d.com'', ui_Name = ''Kim'', ui_Nickname = ''K''\<rparr>"

definition forceRenameIn :: ForceUpdateAdminInfoIn where
  "forceRenameIn = \<lparr>fu_UserId = 1, fu_Username = ''a@b.com'', fu_Name = ''Kim J'',
     fu_Nickname = ''KJ'', fu_Password = ''Pw3!''\<rparr>"

definition forceStealIn :: ForceUpdateAdminInfoIn where
  "forceStealIn = \<lparr>fu_UserId = 1, fu_Username = ''c@d.com'', fu_Name = ''Kim'',
     fu_Nickname = ''K'', fu_Password = ''Pw3!''\<rparr>"

lemmas demo_defs = demoEnv_def demoWorld_def demoAdmin_def demoCustomer_def demoManager_def
  demoHash_def demoCheck_def demoGenerate_def timeoutEnv_def brokenAdapterEnv_def
  userSaveFailsEnv_def
  managerSaveFailsEnv_def newCustomerIn_def newAdminIn_def duplicateAdminIn_def
  samePasswordIn_def changePasswordIn_def renameAdminIn_def stealUsernameIn_def
  forceRenameIn_def forceStealIn_def

lemmas lookup_defs = userById_def userByUsername_def managerById_def

section \<open>Facts about the repositories\<close>

lemma find_upsertUser: "userById (upsertUser u xs) (Id u) = Some u"
  by (induction xs) (auto simp: userById_def)

lemma find_upsertManager: "managerById (upsertManager m xs) (ManagerId m) = Some m"
  by (induction xs) (auto simp: managerById_def)

lemma userById_absent: "(\<forall>x\<in>set us. Id x \<noteq> i) \<Longrightarrow> userById us i = None"
  by (simp add: userById_def find_None_iff)

lemma userByUsername_absent: "(\<forall>x\<in>set us. Username x \<noteq> n) \<Longrightarrow> userByUsername us n = None"
  by (simp add: userByUsername_def find_None_iff)

lemma userByUsername_present:
  "x \<in> set us \<Longrightarrow> Username x = n \<Longrightarrow> \<exists>y. userByUsername us n = Some y"
  by (cases "userByUsername us n") (auto simp: userByUsername_def find_None_iff)

lemma userById_Some_Id: "userById us i = Some u \<Longrightarrow> Id u = i"
  by (auto simp: userById_def find_Some_iff)

lemma userByUsername_unique:
  "distinct (map Username us) \<Longrightarrow>
     userByUsername us n = Some x \<longleftrightarrow> x \<in> set us \<and> Username x = n"
  unfolding userByUsername_def
  by (induction us) (auto simp: image_iff)

lemma GetById_world:
  "userRepo_GetById e w i = (w1, p, err) \<Longrightarrow> w1 = record_call (CallUserGetById i) w"
  by (auto simp: userRepo_GetById_def Let_def split: option.splits prod.splits)

lemma GetByUsername_ok:
  "UserGetByUsernameFault e = None \<Longrightarrow>
     userRepo_GetByUsername e w n =
       (record_call (CallUserGetByUsername n) w, userByUsername (users w) n, None)"
  by (simp add: userRepo_GetByUsername_def)

lemma userRepo_Save_err:
  "snd (userRepo_Save e w u) = map_option RepoError (UserSaveFault e)"
  by (simp add: userRepo_Save_def Let_def split: option.splits)

lemma managerRepo_Save_err:
  "snd (managerRepo_Save e w m) = map_option RepoError (ManagerSaveFault e)"
  by (simp add: managerRepo_Save_def Let_def split: option.splits)

lemma saveUserAndManager_err:
  "snd (saveUserAndManager e w u m) =
     (if userSaveFirst e
      then errgroup_Wait (map_option RepoError (UserSaveFault e))
             (map_option RepoError (ManagerSaveFault e))
      else errgroup_Wait (map_option RepoError (ManagerSaveFault e))
             (map_option RepoError (UserSaveFault e)))"
  by (simp add: saveUserAndManager_def userRepo_Save_def managerRepo_Save_def Let_def
      split: option.splits)

lemma saveUserAndManager_result:
  "snd (saveUserAndManager e w u m) = None \<longleftrightarrow> UserSaveFault e = None \<and> ManagerSaveFault e = None"
  by (auto simp: saveUserAndManager_err errgroup_Wait_def split: option.splits)

lemma saveUserAndManager_tables:
  "users (fst (saveUserAndManager e w u m)) =
     (if UserSaveFault e = None then upsertUser (u\<lparr>Manager := None\<rparr>) (users w) else users w) \<and>
   managers (fst (saveUserAndManager e w u m)) =
     (if ManagerSaveFault e = None then upsertManager m (managers w) else managers w)"
  by (auto simp: saveUserAndManager_def userRepo_Save_def managerRepo_Save_def record_call_def
      Let_def split: option.splits)

lemma saveUserAndManager_no_conflict:
  "snd (saveUserAndManager e w u m) \<noteq> Some ItemAlreadyExist"
  by (auto simp: saveUserAndManager_err errgroup_Wait_def split: option.splits)

lemma Transaction_err:
  "snd (userRepo_Transaction e w fn) =
     (case snd (fn (record_call CallUserTransaction w)) of
        Some err \<Rightarrow> Some err
      | None \<Rightarrow> map_option RepoError (CommitFault e))"
  by (simp add: userRepo_Transaction_def Let_def split: option.splits prod.splits)

lemma Transaction_tables:
  "users (fst (userRepo_Transaction e w fn)) =
     (if snd (userRepo_Transaction e w fn) = None
      then users (fst (fn (record_call CallUserTransaction w))) else users w) \<and>
   managers (fst (userRepo_Transaction e w fn)) =
     (if snd (userRepo_Transaction e w fn) = None
      then managers (fst (fn (record_call CallUserTransaction w))) else managers w)"
  by (simp add: userRepo_Transaction_def Let_def record_call_def split: option.splits prod.splits)

lemma LoadManagerInfo_error:
  "LoadManagerInfo e w u = (w1, u1, Some err) \<Longrightarrow> \<exists>msg. err = RepoError msg"
  by (auto simp: LoadManagerInfo_def managerRepo_GetById_def Let_def
      split: option.splits prod.splits)

lemma loadTarget_error:
  "loadTarget e w p i = (w1, q, Some err) \<Longrightarrow> \<exists>msg. err = RepoError msg"
  by (auto simp: loadTarget_def userRepo_GetById_def Let_def split: option.splits)

section \<open>The update paths, stage by stage\<close>

lemma UpdateAdminInfo_staged:
  "UpdateAdminInfo e w ui =
     (case resolveTarget e w (ui_Username ui) (ui_UserId ui) of
        (w2, Inl err) \<Rightarrow> (w2, Some err)
      | (w2, Inr u) \<Rightarrow> updateAndSave e w2 u (ui_Username ui) (ui_Name ui) (ui_Nickname ui))"
  unfolding UpdateAdminInfo_def resolveTarget_def updateAndSave_def
  by (simp split: prod.splits option.splits sum.splits)

lemma ForceUpdate_staged:
  "ForceUpdateAdminInfoBySuperAdmin e w fu =
     (case resolveTarget e w (fu_Username fu) (fu_UserId fu) of
        (w2, Inl err) \<Rightarrow> (w2, Some err)
      | (w2, Inr u) \<Rightarrow>
          updateAndSave e w2 (UpdatePassword e u (fu_Password fu))
            (fu_Username fu) (fu_Name fu) (fu_Nickname fu))"
  unfolding ForceUpdateAdminInfoBySuperAdmin_def resolveTarget_def updateAndSave_def
  by (simp split: prod.splits option.splits sum.splits)

lemma updateAndSave_no_conflict:
  "snd (updateAndSave e w u username name nickname) \<noteq> Some ItemAlreadyExist"
  using saveUserAndManager_no_conflict
  by (auto simp: updateAndSave_def split: option.splits prod.splits dest: LoadManagerInfo_error)

lemma updateAndSave_cases:
  "snd (updateAndSave e w u username name nickname) \<noteq> None \<or>
   (\<exists>w3 u2 m. updateAndSave e w u username name nickname = saveUserAndManager e w3 u2 m)"
  by (auto simp: updateAndSave_def split: option.splits prod.splits)

lemma resolveTarget_conflict:
  assumes "UserGetByUsernameFault e = None"
  shows "snd (resolveTarget e w n t) = Inl ItemAlreadyExist \<longleftrightarrow>
         (\<exists>x. userByUsername (users w) n = Some x \<and> Id x \<noteq> t)"
  unfolding resolveTarget_def GetByUsername_ok [OF assms]
  by (auto simp: checkUsernameOwner_def split: option.splits prod.splits if_splits
      dest: loadTarget_error)

lemma UpdateAdminInfo_conflict:
  assumes "UserGetByUsernameFault e = None"
  shows "snd (UpdateAdminInfo e w ui) = Some ItemAlreadyExist \<longleftrightarrow>
         (\<exists>x. userByUsername (users w) (ui_Username ui) = Some x \<and> Id x \<noteq> ui_UserId ui)"
  using resolveTarget_conflict [OF assms, of w "ui_Username ui" "ui_UserId ui"]
    updateAndSave_no_conflict
  by (auto simp: UpdateAdminInfo_staged split: prod.splits sum.splits)

lemma ForceUpdate_conflict:
  assumes "UserGetByUsernameFault e = None"
  shows "snd (ForceUpdateAdminInfoBySuperAdmin e w fu) = Some ItemAlreadyExist \<longleftrightarrow>
         (\<exists>x. userByUsername (users w) (fu_Username fu) = Some x \<and> Id x \<noteq> fu_UserId fu)"
  using resolveTarget_conflict [OF assms, of w "fu_Username fu" "fu_UserId fu"]
    updateAndSave_no_conflict
  by (auto simp: ForceUpdate_staged split: prod.splits sum.splits)

lemma UpdateAdminInfo_cases:
  "snd (UpdateAdminInfo e w ui) \<noteq> None \<or>
   (\<exists>w3 u2 m. UpdateAdminInfo e w ui = saveUserAndManager e w3 u2 m)"
  using updateAndSave_cases
  by (auto simp: UpdateAdminInfo_staged split: prod.splits sum.splits)

lemma ForceUpdate_cases:
  "snd (ForceUpdateAdminInfoBySuperAdmin e w fu) \<noteq> None \<or>
   (\<exists>w3 u2 m. ForceUpdateAdminInfoBySuperAdmin e w fu = saveUserAndManager e w3 u2 m)"
  using updateAndSave_cases
  by (auto simp: ForceUpdate_staged split: prod.splits sum.splits)


section \<open>Creating users\<close>

text \<open>
  Claim C1. \<open>CreateAdminUser\<close>, once the duplicate check has passed, saves the new User
  and its Manager inside one transaction. If either of the two concurrent saves fails,
  the call returns an error and both tables are as they were before the call; if both
  saves succeed and the transaction commits, the call returns no error and both rows are in
  the store, each found under the new id. Whatever happens, the tables are either both
  unchanged or both hold the new row.
\<close>

theorem CreateAdminUser_atomic:
  assumes "fst (snd (userRepo_GetByUsername e w (ca_Email au))) = None"
  shows "let user = createUser e AdminUserRole (ca_Email au) (ca_Password au);
             manager = CreateManager user (ca_Name au) (ca_Nickname au);
             w' = fst (CreateAdminUser e w au);
             err = snd (snd (CreateAdminUser e w au))
         in (UserSaveFault e \<noteq> None \<or> ManagerSaveFault e \<noteq> None \<longrightarrow>
               err \<noteq> None \<and> users w' = users w \<and> managers w' = managers w) \<and>
            (UserSaveFault e = None \<and> ManagerSaveFault e = None \<and> CommitFault e = None \<longrightarrow>
               err = None \<and>
               users w' = upsertUser user (users w) \<and>
               managers w' = upsertManager manager (managers w) \<and>
               userById (users w') (newUUID e) = Some user \<and>
               managerById (managers w') (newUUID e) = Some manager) \<and>
            (err \<noteq> None \<and> users w' = users w \<and> managers w' = managers w \<or>
             err = None \<and> users w' = upsertUser user (users w) \<and>
               managers w' = upsertManager manager (managers w))"
proof -
  define user where "user = createUser e AdminUserRole (ca_Email au) (ca_Password au)"
  define manager where "manager = CreateManager user (ca_Name au) (ca_Nickname au)"
  define w1 where "w1 = fst (userRepo_GetByUsername e w (ca_Email au))"
  define tx where "tx = userRepo_Transaction e w1 (\<lambda>t. saveUserAndManager e t user manager)"
  have tables1: "users w1 = users w" "managers w1 = managers w"
    by (simp_all add: w1_def userRepo_GetByUsername_def record_call_def Let_def
        split: option.splits prod.splits)
  have run: "CreateAdminUser e w au = (fst tx, Id user, snd tx)"
    using assms
    by (simp add: CreateAdminUser_def tx_def w1_def user_def manager_def Let_def split_beta)
  have ids: "Id user = newUUID e" "ManagerId manager = newUUID e" "user\<lparr>Manager := None\<rparr> = user"
    by (simp_all add: user_def manager_def createUser_def CreateUser_def UpdatePassword_def
        CreateManager_def)
  have err: "snd tx = None \<longleftrightarrow>
      UserSaveFault e = None \<and> ManagerSaveFault e = None \<and> CommitFault e = None"
  proof -
    have "snd tx =
        (case snd (saveUserAndManager e (record_call CallUserTransaction w1) user manager) of
           Some err \<Rightarrow> Some err
         | None \<Rightarrow> map_option RepoError (CommitFault e))"
      by (simp add: tx_def Transaction_err)
    then show ?thesis
      using saveUserAndManager_result [of e "record_call CallUserTransaction w1" user manager]
      by (cases "snd (saveUserAndManager e (record_call CallUserTransaction w1) user manager)")
        auto
  qed
  have rolled_back: "snd tx \<noteq> None \<Longrightarrow> users (fst tx) = users w \<and> managers (fst tx) = managers w"
    using Transaction_tables [of e w1 "\<lambda>t. saveUserAndManager e t user manager"] tables1
    unfolding tx_def by auto
  have committed: "snd tx = None \<Longrightarrow>
      users (fst tx) = upsertUser user (users w) \<and>
      managers (fst tx) = upsertManager manager (managers w)"
  proof -
    assume ok: "snd tx = None"
    with err have nofault: "UserSaveFault e = None" "ManagerSaveFault e = None"
      by simp_all
    from ok show ?thesis
      using Transaction_tables [of e w1 "\<lambda>t. saveUserAndManager e t user manager"]
        saveUserAndManager_tables [of e "record_call CallUserTransaction w1" user manager]
        tables1 nofault ids(3)
      by (simp add: tx_def record_call_def)
  qed
  have found: "snd tx = None \<Longrightarrow>
      userById (users (fst tx)) (newUUID e) = Some user \<and>
      managerById (managers (fst tx)) (newUUID e) = Some manager"
    using committed find_upsertUser [of user "users w"]
      find_upsertManager [of manager "managers w"] ids
    by simp
  show ?thesis
    unfolding Let_def user_def [symmetric] manager_def [symmetric] run
    using err rolled_back committed found
    by auto
qed

theorem CreateAdminUser_atomic_witness:
  "fst (snd (userRepo_GetByUsername demoEnv demoWorld (ca_Email newAdminIn))) = None \<and>
   snd (CreateAdminUser managerSaveFailsEnv demoWorld newAdminIn) =
     (7, Some (RepoError ''connection lost'')) \<and>
   users (fst (CreateAdminUser managerSaveFailsEnv demoWorld newAdminIn)) = users demoWorld \<and>
   managers (fst (CreateAdminUser managerSaveFailsEnv demoWorld newAdminIn)) = managers demoWorld \<and>
   users (fst (CreateAdminUser userSaveFailsEnv demoWorld newAdminIn)) = users demoWorld \<and>
   managers (fst (CreateAdminUser userSaveFailsEnv demoWorld newAdminIn)) = managers demoWorld \<and>
   snd (CreateAdminUser demoEnv demoWorld newAdminIn) = (7, None) \<and>
   users (fst (CreateAdminUser demoEnv demoWorld newAdminIn)) =
     [demoAdmin, demoCustomer,
      \<lparr>Id = 7, Role = AdminUserRole, Username = ''l@b.com'', Password = demoHash ''Pw9!'',
       DeletedAt = None, Manager = None\<rparr>] \<and>
   managers (fst (CreateAdminUser demoEnv demoWorld newAdminIn)) =
     [demoManager,
      \<lparr>ManagerId = 7, Name = ''Lee'', Nickname = ''L'', ManagerUsername = ''l@b.com''\<rparr>]"
  using CreateAdminUser_atomic [where e = demoEnv and w = demoWorld and au = newAdminIn]
    CreateAdminUser_atomic [where e = managerSaveFailsEnv and w = demoWorld and au = newAdminIn]
    CreateAdminUser_atomic [where e = userSaveFailsEnv and w = demoWorld and au = newAdminIn]
  by (simp add: demo_defs lookup_defs Let_def CreateAdminUser_def createUser_def CreateUser_def
      UpdatePassword_def CreateManager_def userRepo_Transaction_def userRepo_Save_def
      userRepo_GetByUsername_def saveUserAndManager_def managerRepo_Save_def errgroup_Wait_def
      record_call_def)

text \<open>
  Claim C2. When a user of the store has the requested email as username, and the lookup
  by username does not answer with a nil pointer beside an error (the lookup of
  \<^verbatim>\<open>src/customer/repository/repo.go\<close> never does), \<open>CreateAdminUser\<close> returns
  \<open>ItemAlreadyExist\<close> with the zero id, leaves both tables as they were and has called
  nothing but the lookup: no Save and no Transaction.
\<close>

theorem CreateAdminUser_duplicate_email:
  assumes "x \<in> set (users w)" and "Username x = ca_Email au"
    and "\<forall>msg. UserGetByUsernameFault e \<noteq> Some (None, msg)"
  shows "snd (CreateAdminUser e w au) = (0, Some ItemAlreadyExist) \<and>
         users (fst (CreateAdminUser e w au)) = users w \<and>
         managers (fst (CreateAdminUser e w au)) = managers w \<and>
         calls (fst (CreateAdminUser e w au)) = calls w @ [CallUserGetByUsername (ca_Email au)] \<and>
         writeCalls (fst (CreateAdminUser e w au)) = writeCalls w"
proof -
  from assms(1,2) obtain y where y: "userByUsername (users w) (ca_Email au) = Some y"
    using userByUsername_present by blast
  show ?thesis
  proof (cases "UserGetByUsernameFault e")
    case None
    with y show ?thesis
      by (simp add: CreateAdminUser_def userRepo_GetByUsername_def record_call_def writeCalls_def)
  next
    case (Some f)
    obtain p msg where f: "f = (p, msg)"
      by (cases f)
    with Some assms(3) have "p \<noteq> None"
      by auto
    with f obtain z where "f = (Some z, msg)"
      by auto
    with Some show ?thesis
      by (simp add: CreateAdminUser_def userRepo_GetByUsername_def record_call_def writeCalls_def)
  qed
qed

theorem CreateAdminUser_duplicate_email_witness:
  "demoAdmin \<in> set (users demoWorld) \<and>
   Username demoAdmin = ca_Email duplicateAdminIn \<and>
   UserGetByUsernameFault demoEnv = None \<and>
   CreateAdminUser demoEnv demoWorld duplicateAdminIn =
     (demoWorld\<lparr>calls := [CallUserGetByUsername ''a@b.com'']\<rparr>, 0, Some ItemAlreadyExist) \<and>
   writeCalls (fst (CreateAdminUser demoEnv demoWorld duplicateAdminIn)) = 0"
  using CreateAdminUser_duplicate_email [where x = demoAdmin and w = demoWorld
      and au = duplicateAdminIn and e = demoEnv]
  by (simp add: demo_defs lookup_defs CreateAdminUser_def userRepo_GetByUsername_def
      record_call_def writeCalls_def)

text \<open>
  Claim C10. \<open>CreateCustomerUser\<close> always returns the id drawn for the new User, and so
  does \<open>CreateAdminUser\<close> once its duplicate check has passed (the lookup returned a nil
  pointer): also when a save fails and the call returns an error, the id beside the error
  is the generated one, which is not the zero id when the generator does not draw zero.
\<close>

theorem created_id_is_returned:
  "fst (snd (CreateCustomerUser e w cu)) = newUUID e \<and>
   (UserSaveFault e \<noteq> None \<longrightarrow> snd (snd (CreateCustomerUser e w cu)) \<noteq> None) \<and>
   (newUUID e \<noteq> 0 \<longrightarrow> fst (snd (CreateCustomerUser e w cu)) \<noteq> 0) \<and>
   (fst (snd (userRepo_GetByUsername e w (ca_Email au))) = None \<longrightarrow>
      fst (snd (CreateAdminUser e w au)) = newUUID e \<and>
      (newUUID e \<noteq> 0 \<longrightarrow> fst (snd (CreateAdminUser e w au)) \<noteq> 0) \<and>
      (UserSaveFault e \<noteq> None \<or> ManagerSaveFault e \<noteq> None \<longrightarrow>
         snd (snd (CreateAdminUser e w au)) \<noteq> None))"
proof -
  have customer_id: "fst (snd (CreateCustomerUser e w cu)) = newUUID e"
    by (simp add: CreateCustomerUser_def createUser_def CreateUser_def UpdatePassword_def Let_def
        split_beta)
  have customer_err: "UserSaveFault e \<noteq> None \<longrightarrow> snd (snd (CreateCustomerUser e w cu)) \<noteq> None"
    by (auto simp: CreateCustomerUser_def Let_def split_beta Transaction_err userRepo_Save_err)
  have admin_id: "fst (snd (userRepo_GetByUsername e w (ca_Email au))) = None \<longrightarrow>
      fst (snd (CreateAdminUser e w au)) = newUUID e"
    by (simp add: CreateAdminUser_def createUser_def CreateUser_def UpdatePassword_def Let_def
        split_beta)
  have admin_err: "fst (snd (userRepo_GetByUsername e w (ca_Email au))) = None \<longrightarrow>
      UserSaveFault e \<noteq> None \<or> ManagerSaveFault e \<noteq> None \<longrightarrow>
      snd (snd (CreateAdminUser e w au)) \<noteq> None"
    by (auto simp: CreateAdminUser_def Let_def split_beta Transaction_err
        saveUserAndManager_result split: option.splits)
  from customer_id customer_err admin_id admin_err show ?thesis
    by simp
qed

theorem created_id_is_returned_witness:
  "UserSaveFault userSaveFailsEnv \<noteq> None \<and> newUUID userSaveFailsEnv \<noteq> 0 \<and>
   fst (snd (userRepo_GetByUsername userSaveFailsEnv demoWorld (ca_Email newAdminIn))) = None \<and>
   snd (CreateCustomerUser userSaveFailsEnv demoWorld newCustomerIn) =
     (7, Some (RepoError ''connection lost'')) \<and>
   snd (CreateAdminUser userSaveFailsEnv demoWorld newAdminIn) =
     (7, Some (RepoError ''connection lost''))"
  using created_id_is_returned [where e = userSaveFailsEnv and w = demoWorld
      and cu = newCustomerIn and au = newAdminIn]
  by (simp add: demo_defs lookup_defs CreateCustomerUser_def CreateAdminUser_def createUser_def
      CreateUser_def UpdatePassword_def userRepo_Transaction_def userRepo_Save_def
      userRepo_GetByUsername_def saveUserAndManager_def managerRepo_Save_def errgroup_Wait_def
      record_call_def CreateManager_def)

section \<open>Signing in\<close>

text \<open>
  Claim C3. When the lookup by username answers, \<open>SignInUser\<close> returns \<open>ItemNotFound\<close>
  if no user has the username and \<open>UserWrongPassword\<close> if the user found fails the
  password comparison, without a call of the token adapter in either case; if the
  comparison succeeds, the token adapter is called exactly once, on the user found, and
  its token and error are returned as they are.
\<close>

theorem SignInUser_outcomes:
  assumes "UserGetByUsernameFault e = None"
  shows "((\<forall>x\<in>set (users w). Username x \<noteq> si_Username si) \<longrightarrow>
            snd (SignInUser e w si) = ([], Some ItemNotFound) \<and>
            adapterCalls (fst (SignInUser e w si)) = adapterCalls w) \<and>
         (\<forall>u. userByUsername (users w) (si_Username si) = Some u \<and>
               \<not> ComparePassword e u (si_Password si) \<longrightarrow>
            snd (SignInUser e w si) = ([], Some UserWrongPassword) \<and>
            adapterCalls (fst (SignInUser e w si)) = adapterCalls w) \<and>
         (\<forall>u. userByUsername (users w) (si_Username si) = Some u \<and>
               ComparePassword e u (si_Password si) \<longrightarrow>
            snd (SignInUser e w si) = Generate e u \<and>
            calls (fst (SignInUser e w si)) =
              calls w @ [CallUserGetByUsername (si_Username si), CallTokenGenerate u] \<and>
            adapterCalls (fst (SignInUser e w si)) = adapterCalls w + 1)"
  using userByUsername_absent [of "users w" "si_Username si"]
  by (auto simp: SignInUser_def GetByUsername_ok [OF assms] record_call_def adapterCalls_def
      split: prod.splits)

theorem SignInUser_outcomes_witness:
  "UserGetByUsernameFault demoEnv = None \<and>
   userByUsername (users demoWorld) ''nobody@b.com'' = None \<and>
   SignInUser demoEnv demoWorld \<lparr>si_Username = ''nobody@b.com'', si_Password = ''Pw1!''\<rparr> =
     (demoWorld\<lparr>calls := [CallUserGetByUsername ''nobody@b.com'']\<rparr>, [], Some ItemNotFound) \<and>
   userByUsername (users demoWorld) ''a@b.com'' = Some demoAdmin \<and>
   \<not> ComparePassword demoEnv demoAdmin ''wrong'' \<and>
   SignInUser demoEnv demoWorld \<lparr>si_Username = ''a@b.com'', si_Password = ''wrong''\<rparr> =
     (demoWorld\<lparr>calls := [CallUserGetByUsername ''a@b.com'']\<rparr>, [], Some UserWrongPassword) \<and>
   ComparePassword demoEnv demoAdmin ''Pw1!'' \<and>
   SignInUser demoEnv demoWorld \<lparr>si_Username = ''a@b.com'', si_Password = ''Pw1!''\<rparr> =
     (demoWorld\<lparr>calls := [CallUserGetByUsername ''a@b.com'', CallTokenGenerate demoAdmin]\<rparr>,
      ''token:a@b.com'', None) \<and>
   adapterCalls (fst (SignInUser demoEnv demoWorld
      \<lparr>si_Username = ''a@b.com'', si_Password = ''Pw1!''\<rparr>)) = 1 \<and>
   snd (SignInUser brokenAdapterEnv demoWorld
      \<lparr>si_Username = ''a@b.com'', si_Password = ''Pw1!''\<rparr>) =
     ([], Some (AdapterError ''no signing key''))"
  using SignInUser_outcomes [where e = demoEnv and w = demoWorld
      and si = "\<lparr>si_Username = ''nobody@b.com'', si_Password = ''Pw1!''\<rparr>"]
    SignInUser_outcomes [where e = brokenAdapterEnv and w = demoWorld
      and si = "\<lparr>si_Username = ''a@b.com'', si_Password = ''Pw1!''\<rparr>"]
    SignInUser_outcomes [where e = demoEnv and w = demoWorld
      and si = "\<lparr>si_Username = ''a@b.com'', si_Password = ''wrong''\<rparr>"]
    SignInUser_outcomes [where e = demoEnv and w = demoWorld
      and si = "\<lparr>si_Username = ''a@b.com'', si_Password = ''Pw1!''\<rparr>"]
  by (simp add: demo_defs lookup_defs SignInUser_def userRepo_GetByUsername_def record_call_def
      ComparePassword_def adapterCalls_def)

section \<open>Changing the password\<close>

text \<open>
  Claim C5, as amended. For an admin-like user that the lookup by id finds,
  \<open>UpdateAdminPassword\<close> called with the correct old password returns no error when the
  save succeeds. The row then stored under the id is the user found, with the credential
  made from the new password; the other rows and the manager table are as before.
  \<open>ComparePassword\<close> accepts the new password on the stored user; it rejects the old
  password when the new password differs from it, and still accepts the old password when
  the new password equals it. The credential scheme is taken to accept exactly the
  password a credential was made from.
\<close>

theorem UpdateAdminPassword_changes_credential:
  assumes "UserGetByIdFault e = None"
    and "userById (users w) (up_UserId up) = Some u"
    and "ExistsAdmin (Some u)"
    and "ComparePassword e u (up_OldPassword up)"
    and "UserSaveFault e = None"
    and "\<forall>p q. checkPassword e (hashPassword e p) q = (p = q)"
  shows "snd (UpdateAdminPassword e w up) = None \<and>
         users (fst (UpdateAdminPassword e w up)) =
           upsertUser (u\<lparr>Password := hashPassword e (up_NewPassword up), Manager := None\<rparr>)
             (users w) \<and>
         managers (fst (UpdateAdminPassword e w up)) = managers w \<and>
         userById (users (fst (UpdateAdminPassword e w up))) (up_UserId up) =
           Some (u\<lparr>Password := hashPassword e (up_NewPassword up), Manager := None\<rparr>) \<and>
         ComparePassword e
           (u\<lparr>Password := hashPassword e (up_NewPassword up), Manager := None\<rparr>)
           (up_NewPassword up) \<and>
         (up_NewPassword up \<noteq> up_OldPassword up \<longrightarrow>
            \<not> ComparePassword e
                (u\<lparr>Password := hashPassword e (up_NewPassword up), Manager := None\<rparr>)
                (up_OldPassword up)) \<and>
         (up_NewPassword up = up_OldPassword up \<longrightarrow>
            ComparePassword e
              (u\<lparr>Password := hashPassword e (up_NewPassword up), Manager := None\<rparr>)
              (up_OldPassword up))"
proof -
  let ?u' = "u\<lparr>Password := hashPassword e (up_NewPassword up), Manager := None\<rparr>"
  from assms(2) have "Id u = up_UserId up"
    by (rule userById_Some_Id)
  then have id': "Id ?u' = up_UserId up"
    by simp
  have res: "UpdateAdminPassword e w up =
      ((record_call (CallUserSave (UpdatePassword e u (up_NewPassword up)))
          (record_call (CallUserGetById (up_UserId up)) w))
        \<lparr>users := upsertUser ?u' (users w)\<rparr>, None)"
    using assms(1-5)
    by (simp add: UpdateAdminPassword_def userRepo_GetById_def userRepo_Save_def record_call_def
        UpdatePassword_def)
  have found: "userById (upsertUser ?u' (users w)) (up_UserId up) = Some ?u'"
    using find_upsertUser [of ?u' "users w"] id' by simp
  have new: "ComparePassword e ?u' (up_NewPassword up)"
    using assms(6) by (simp add: ComparePassword_def)
  have old: "ComparePassword e ?u' (up_OldPassword up) \<longleftrightarrow>
      up_NewPassword up = up_OldPassword up"
    using assms(6) by (simp add: ComparePassword_def)
  have r1: "snd (UpdateAdminPassword e w up) = None"
    using res by simp
  have r2: "users (fst (UpdateAdminPassword e w up)) = upsertUser ?u' (users w)"
    using res by (simp add: record_call_def)
  have r3: "managers (fst (UpdateAdminPassword e w up)) = managers w"
    using res by (simp add: record_call_def)
  have r4: "userById (users (fst (UpdateAdminPassword e w up))) (up_UserId up) = Some ?u'"
    using r2 found by simp
  have differs: "up_NewPassword up \<noteq> up_OldPassword up \<longrightarrow>
      \<not> ComparePassword e ?u' (up_OldPassword up)"
    using old by blast
  have same: "up_NewPassword up = up_OldPassword up \<longrightarrow>
      ComparePassword e ?u' (up_OldPassword up)"
    using old by blast
  from r1 r2 r3 r4 new differs same show ?thesis
    by blast
qed

theorem UpdateAdminPassword_changes_credential_witness:
  "UserGetByIdFault demoEnv = None \<and>
   userById (users demoWorld) (up_UserId changePasswordIn) = Some demoAdmin \<and>
   ExistsAdmin (Some demoAdmin) \<and>
   ComparePassword demoEnv demoAdmin (up_OldPassword changePasswordIn) \<and>
   UserSaveFault demoEnv = None \<and>
   (\<forall>p q. checkPassword demoEnv (hashPassword demoEnv p) q = (p = q)) \<and>
   up_NewPassword changePasswordIn \<noteq> up_OldPassword changePasswordIn \<and>
   snd (UpdateAdminPassword demoEnv demoWorld changePasswordIn) = None \<and>
   users (fst (UpdateAdminPassword demoEnv demoWorld changePasswordIn)) =
     [demoAdmin\<lparr>Password := demoHash ''Pw2!''\<rparr>, demoCustomer] \<and>
   managers (fst (UpdateAdminPassword demoEnv demoWorld changePasswordIn)) = [demoManager] \<and>
   ComparePassword demoEnv (demoAdmin\<lparr>Password := demoHash ''Pw2!''\<rparr>) ''Pw2!'' \<and>
   \<not> ComparePassword demoEnv (demoAdmin\<lparr>Password := demoHash ''Pw2!''\<rparr>) ''Pw1!'' \<and>
   userById (users demoWorld) (up_UserId samePasswordIn) = Some demoAdmin \<and>
   ComparePassword demoEnv demoAdmin (up_OldPassword samePasswordIn) \<and>
   up_NewPassword samePasswordIn = up_OldPassword samePasswordIn \<and>
   snd (UpdateAdminPassword demoEnv demoWorld samePasswordIn) = None \<and>
   users (fst (UpdateAdminPassword demoEnv demoWorld samePasswordIn)) =
     [demoAdmin, demoCustomer] \<and>
   ComparePassword demoEnv demoAdmin ''Pw1!''"
  using UpdateAdminPassword_changes_credential [where e = demoEnv and w = demoWorld
      and u = demoAdmin and up = changePasswordIn]
    UpdateAdminPassword_changes_credential [where e = demoEnv and w = demoWorld
      and u = demoAdmin and up = samePasswordIn]
  by (simp add: demo_defs lookup_defs UpdateAdminPassword_def userRepo_GetById_def
      userRepo_Save_def record_call_def ExistsAdmin_def ComparePassword_def UpdatePassword_def)

text \<open>
  The claim as the spec states it fails when the new password is the old one: the call
  succeeds, the stored credential still accepts the old password.
\<close>

theorem UpdateAdminPassword_same_password_counterexample:
  "userById (users demoWorld) (up_UserId samePasswordIn) = Some demoAdmin \<and>
   ExistsAdmin (Some demoAdmin) \<and>
   ComparePassword demoEnv demoAdmin (up_OldPassword samePasswordIn) \<and>
   snd (UpdateAdminPassword demoEnv demoWorld samePasswordIn) = None \<and>
   userById (users (fst (UpdateAdminPassword demoEnv demoWorld samePasswordIn)))
     (up_UserId samePasswordIn) = Some demoAdmin \<and>
   ComparePassword demoEnv
     (the (userById (users (fst (UpdateAdminPassword demoEnv demoWorld samePasswordIn)))
        (up_UserId samePasswordIn)))
     (up_OldPassword samePasswordIn)"
  by (simp add: demo_defs lookup_defs UpdateAdminPassword_def userRepo_GetById_def
      userRepo_Save_def record_call_def ExistsAdmin_def ComparePassword_def UpdatePassword_def)

text \<open>
  Claim C6. Let \<open>p\<close> be the pointer the lookup by id returns. If \<open>p\<close> is not an existing
  admin-like user, \<open>UpdateAdminPassword\<close> returns \<open>ItemNotFound\<close>; if it is and the old
  password does not match its credential, the call returns \<open>UserWrongPassword\<close>. Whenever
  the call returns one of these two errors, both tables are as before and the lookup is
  the only call made: no Save.
\<close>

theorem UpdateAdminPassword_failures:
  assumes "userRepo_GetById e w (up_UserId up) = (w1, p, err)"
  shows "(\<not> ExistsAdmin p \<longrightarrow> snd (UpdateAdminPassword e w up) = Some ItemNotFound) \<and>
         (\<forall>u. p = Some u \<and> ExistsAdmin p \<and> \<not> ComparePassword e u (up_OldPassword up) \<longrightarrow>
            snd (UpdateAdminPassword e w up) = Some UserWrongPassword) \<and>
         (snd (UpdateAdminPassword e w up) = Some ItemNotFound \<or>
          snd (UpdateAdminPassword e w up) = Some UserWrongPassword \<longrightarrow>
            users (fst (UpdateAdminPassword e w up)) = users w \<and>
            managers (fst (UpdateAdminPassword e w up)) = managers w \<and>
            calls (fst (UpdateAdminPassword e w up)) = calls w @ [CallUserGetById (up_UserId up)] \<and>
            writeCalls (fst (UpdateAdminPassword e w up)) = writeCalls w)"
proof -
  have w1: "w1 = record_call (CallUserGetById (up_UserId up)) w"
    using assms by (rule GetById_world)
  have save: "\<And>u. snd (userRepo_Save e w1 u) \<noteq> Some ItemNotFound \<and>
                   snd (userRepo_Save e w1 u) \<noteq> Some UserWrongPassword"
    by (auto simp: userRepo_Save_err)
  show ?thesis
    using assms save
    by (auto simp: UpdateAdminPassword_def w1 record_call_def writeCalls_def ExistsAdmin_def
        split: option.splits)
qed

theorem UpdateAdminPassword_failures_witness:
  "userRepo_GetById demoEnv demoWorld 9 =
     (demoWorld\<lparr>calls := [CallUserGetById 9]\<rparr>, None, None) \<and>
   \<not> ExistsAdmin None \<and>
   UpdateAdminPassword demoEnv demoWorld
       \<lparr>up_UserId = 9, up_OldPassword = ''Pw1!'', up_NewPassword = ''Pw2!''\<rparr> =
     (demoWorld\<lparr>calls := [CallUserGetById 9]\<rparr>, Some ItemNotFound) \<and>
   userRepo_GetById demoEnv demoWorld 2 =
     (demoWorld\<lparr>calls := [CallUserGetById 2]\<rparr>, Some demoCustomer, None) \<and>
   \<not> ExistsAdmin (Some demoCustomer) \<and>
   UpdateAdminPassword demoEnv demoWorld
       \<lparr>up_UserId = 2, up_OldPassword = ''01012345678'', up_NewPassword = ''Pw2!''\<rparr> =
     (demoWorld\<lparr>calls := [CallUserGetById 2]\<rparr>, Some ItemNotFound) \<and>
   userRepo_GetById demoEnv demoWorld 1 =
     (demoWorld\<lparr>calls := [CallUserGetById 1]\<rparr>, Some demoAdmin, None) \<and>
   ExistsAdmin (Some demoAdmin) \<and> \<not> ComparePassword demoEnv demoAdmin ''wrong'' \<and>
   UpdateAdminPassword demoEnv demoWorld
       \<lparr>up_UserId = 1, up_OldPassword = ''wrong'', up_NewPassword = ''Pw2!''\<rparr> =
     (demoWorld\<lparr>calls := [CallUserGetById 1]\<rparr>, Some UserWrongPassword)"
  using UpdateAdminPassword_failures [where e = demoEnv and w = demoWorld
      and up = "\<lparr>up_UserId = 9, up_OldPassword = ''Pw1!'', up_NewPassword = ''Pw2!''\<rparr>"
      and ?w1.0 = "demoWorld\<lparr>calls := [CallUserGetById 9]\<rparr>" and p = None and err = None]
    UpdateAdminPassword_failures [where e = demoEnv and w = demoWorld
      and up = "\<lparr>up_UserId = 2, up_OldPassword = ''01012345678'', up_NewPassword = ''Pw2!''\<rparr>"
      and ?w1.0 = "demoWorld\<lparr>calls := [CallUserGetById 2]\<rparr>" and p = "Some demoCustomer"
      and err = None]
    UpdateAdminPassword_failures [where e = demoEnv and w = demoWorld
      and up = "\<lparr>up_UserId = 1, up_OldPassword = ''wrong'', up_NewPassword = ''Pw2!''\<rparr>"
      and ?w1.0 = "demoWorld\<lparr>calls := [CallUserGetById 1]\<rparr>" and p = "Some demoAdmin"
      and err = None]
  by (simp add: demo_defs lookup_defs UpdateAdminPassword_def userRepo_GetById_def
      record_call_def ComparePassword_def ExistsAdmin_def)


text \<open>
  Claim C9. In \<open>UpdateAdminPassword\<close>, \<open>DeleteCustomerUser\<close> and \<open>DeleteAdminUser\<close> the
  error of a failing lookup by id never reaches the caller. When the pointer \<open>p\<close> returned
  beside the error fails the guard of the function, the call returns \<open>ItemNotFound\<close> after
  the lookup alone, which is exactly what a lookup that succeeds and finds no user gives;
  and in every case the result is the same whatever the message of the error.
\<close>

theorem GetById_error_is_discarded:
  assumes "UserGetByIdFault e = Some (p, msg)"
  shows "(\<not> ExistsAdmin p \<longrightarrow>
            UpdateAdminPassword e w up =
              (record_call (CallUserGetById (up_UserId up)) w, Some ItemNotFound)) \<and>
         ((case p of None \<Rightarrow> True | Some u \<Rightarrow> \<not> IsCustomer u) \<longrightarrow>
            DeleteCustomerUser e w i = (record_call (CallUserGetById i) w, Some ItemNotFound)) \<and>
         ((case p of None \<Rightarrow> True | Some u \<Rightarrow> IsDeleted u \<or> \<not> IsAdmin u) \<longrightarrow>
            DeleteAdminUser e w i = (record_call (CallUserGetById i) w, Some ItemNotFound)) \<and>
         ((\<forall>x\<in>set (users w). Id x \<noteq> up_UserId up) \<longrightarrow>
            UpdateAdminPassword (e\<lparr>UserGetByIdFault := None\<rparr>) w up =
              (record_call (CallUserGetById (up_UserId up)) w, Some ItemNotFound)) \<and>
         ((\<forall>x\<in>set (users w). Id x \<noteq> i) \<longrightarrow>
            DeleteCustomerUser (e\<lparr>UserGetByIdFault := None\<rparr>) w i =
              (record_call (CallUserGetById i) w, Some ItemNotFound) \<and>
            DeleteAdminUser (e\<lparr>UserGetByIdFault := None\<rparr>) w i =
              (record_call (CallUserGetById i) w, Some ItemNotFound)) \<and>
         UpdateAdminPassword (e\<lparr>UserGetByIdFault := Some (p, msg')\<rparr>) w up =
           UpdateAdminPassword e w up \<and>
         DeleteCustomerUser (e\<lparr>UserGetByIdFault := Some (p, msg')\<rparr>) w i =
           DeleteCustomerUser e w i \<and>
         DeleteAdminUser (e\<lparr>UserGetByIdFault := Some (p, msg')\<rparr>) w i =
           DeleteAdminUser e w i"
proof -
  have a: "\<not> ExistsAdmin p \<longrightarrow>
            UpdateAdminPassword e w up =
              (record_call (CallUserGetById (up_UserId up)) w, Some ItemNotFound)"
    using assms by (simp add: UpdateAdminPassword_def userRepo_GetById_def)
  have b: "(case p of None \<Rightarrow> True | Some u \<Rightarrow> \<not> IsCustomer u) \<longrightarrow>
            DeleteCustomerUser e w i = (record_call (CallUserGetById i) w, Some ItemNotFound)"
    using assms by (simp add: DeleteCustomerUser_def userRepo_GetById_def split: option.splits)
  have c: "(case p of None \<Rightarrow> True | Some u \<Rightarrow> IsDeleted u \<or> \<not> IsAdmin u) \<longrightarrow>
            DeleteAdminUser e w i = (record_call (CallUserGetById i) w, Some ItemNotFound)"
    using assms by (auto simp: DeleteAdminUser_def userRepo_GetById_def split: option.splits)
  have d: "(\<forall>x\<in>set (users w). Id x \<noteq> up_UserId up) \<longrightarrow>
            UpdateAdminPassword (e\<lparr>UserGetByIdFault := None\<rparr>) w up =
              (record_call (CallUserGetById (up_UserId up)) w, Some ItemNotFound)"
    using userById_absent [of "users w" "up_UserId up"]
    by (simp add: UpdateAdminPassword_def userRepo_GetById_def ExistsAdmin_def)
  have f: "(\<forall>x\<in>set (users w). Id x \<noteq> i) \<longrightarrow>
            DeleteCustomerUser (e\<lparr>UserGetByIdFault := None\<rparr>) w i =
              (record_call (CallUserGetById i) w, Some ItemNotFound) \<and>
            DeleteAdminUser (e\<lparr>UserGetByIdFault := None\<rparr>) w i =
              (record_call (CallUserGetById i) w, Some ItemNotFound)"
    using userById_absent [of "users w" i]
    by (simp add: DeleteCustomerUser_def DeleteAdminUser_def userRepo_GetById_def)
  have g: "UpdateAdminPassword (e\<lparr>UserGetByIdFault := Some (p, msg')\<rparr>) w up =
           UpdateAdminPassword e w up"
    using assms
    by (simp add: UpdateAdminPassword_def userRepo_GetById_def userRepo_Save_def
        ComparePassword_def UpdatePassword_def split: option.splits)
  have h: "DeleteCustomerUser (e\<lparr>UserGetByIdFault := Some (p, msg')\<rparr>) w i =
           DeleteCustomerUser e w i"
    using assms
    by (simp add: DeleteCustomerUser_def userRepo_GetById_def userRepo_Save_def Delete_def
        split: option.splits)
  have k: "DeleteAdminUser (e\<lparr>UserGetByIdFault := Some (p, msg')\<rparr>) w i =
           DeleteAdminUser e w i"
    using assms
    by (simp add: DeleteAdminUser_def userRepo_GetById_def userRepo_Save_def Delete_def
        split: option.splits)
  from a b c d f g h k show ?thesis
    by blast
qed

theorem GetById_error_is_discarded_witness:
  "UserGetByIdFault timeoutEnv = Some (None, ''context deadline exceeded'') \<and>
   \<not> ExistsAdmin None \<and>
   UpdateAdminPassword timeoutEnv demoWorld changePasswordIn =
     (demoWorld\<lparr>calls := [CallUserGetById 1]\<rparr>, Some ItemNotFound) \<and>
   DeleteCustomerUser timeoutEnv demoWorld 2 =
     (demoWorld\<lparr>calls := [CallUserGetById 2]\<rparr>, Some ItemNotFound) \<and>
   DeleteAdminUser timeoutEnv demoWorld 1 =
     (demoWorld\<lparr>calls := [CallUserGetById 1]\<rparr>, Some ItemNotFound) \<and>
   userById (users demoWorld) 9 = None \<and>
   UpdateAdminPassword demoEnv demoWorld
       \<lparr>up_UserId = 9, up_OldPassword = ''Pw1!'', up_NewPassword = ''Pw2!''\<rparr> =
     (demoWorld\<lparr>calls := [CallUserGetById 9]\<rparr>, Some ItemNotFound) \<and>
   DeleteCustomerUser demoEnv demoWorld 9 =
     (demoWorld\<lparr>calls := [CallUserGetById 9]\<rparr>, Some ItemNotFound) \<and>
   DeleteAdminUser demoEnv demoWorld 9 =
     (demoWorld\<lparr>calls := [CallUserGetById 9]\<rparr>, Some ItemNotFound)"
  using GetById_error_is_discarded [where e = timeoutEnv and p = None
      and msg = "''context deadline exceeded''" and w = demoWorld and i = 2
      and up = changePasswordIn]
    GetById_error_is_discarded [where e = timeoutEnv and p = None
      and msg = "''context deadline exceeded''" and w = demoWorld and i = 9
      and up = "\<lparr>up_UserId = 9, up_OldPassword = ''Pw1!'', up_NewPassword = ''Pw2!''\<rparr>"]
  by (simp add: demo_defs lookup_defs UpdateAdminPassword_def DeleteCustomerUser_def
      DeleteAdminUser_def userRepo_GetById_def record_call_def ExistsAdmin_def)

section \<open>Deleting users\<close>

text \<open>
  Claim C4. What the code does with a user that is already soft-deleted: when the lookup
  by id finds such a user, \<open>DeleteAdminUser\<close> returns \<open>ItemNotFound\<close> without saving, but
  \<open>DeleteCustomerUser\<close>, which has no such guard, saves a customer again and returns
  what the save returns, never \<open>ItemNotFound\<close>. So a second delete of a customer succeeds.
\<close>

theorem delete_of_soft_deleted_user:
  assumes "UserGetByIdFault e = None"
    and "userById (users w) i = Some u"
    and "IsDeleted u"
  shows "DeleteAdminUser e w i = (record_call (CallUserGetById i) w, Some ItemNotFound) \<and>
         (IsCustomer u \<longrightarrow>
            DeleteCustomerUser e w i =
              userRepo_Save e (record_call (CallUserGetById i) w) (Delete e u) \<and>
            snd (DeleteCustomerUser e w i) \<noteq> Some ItemNotFound \<and>
            (UserSaveFault e = None \<longrightarrow> snd (DeleteCustomerUser e w i) = None))"
  using assms
  by (auto simp: DeleteAdminUser_def DeleteCustomerUser_def userRepo_GetById_def
      userRepo_Save_err)

theorem delete_of_soft_deleted_user_witness:
  "snd (DeleteCustomerUser demoEnv demoWorld 2) = None \<and>
   userById (users (fst (DeleteCustomerUser demoEnv demoWorld 2))) 2 =
     Some (demoCustomer\<lparr>DeletedAt := Some 100\<rparr>) \<and>
   IsDeleted (demoCustomer\<lparr>DeletedAt := Some 100\<rparr>) \<and>
   IsCustomer (demoCustomer\<lparr>DeletedAt := Some 100\<rparr>) \<and>
   snd (DeleteCustomerUser demoEnv (fst (DeleteCustomerUser demoEnv demoWorld 2)) 2) = None \<and>
   snd (DeleteAdminUser demoEnv demoWorld 1) = None \<and>
   userById (users (fst (DeleteAdminUser demoEnv demoWorld 1))) 1 =
     Some (demoAdmin\<lparr>DeletedAt := Some 100\<rparr>) \<and>
   snd (DeleteAdminUser demoEnv (fst (DeleteAdminUser demoEnv demoWorld 1)) 1) =
     Some ItemNotFound"
  using delete_of_soft_deleted_user [where e = demoEnv
      and w = "fst (DeleteCustomerUser demoEnv demoWorld 2)" and i = 2
      and u = "demoCustomer\<lparr>DeletedAt := Some 100\<rparr>"]
    delete_of_soft_deleted_user [where e = demoEnv
      and w = "fst (DeleteAdminUser demoEnv demoWorld 1)" and i = 1
      and u = "demoAdmin\<lparr>DeletedAt := Some 100\<rparr>"]
  by (simp add: demo_defs lookup_defs DeleteCustomerUser_def DeleteAdminUser_def
      userRepo_GetById_def userRepo_Save_def record_call_def Delete_def IsCustomer_def
      IsAdmin_def IsDeleted_def)


section \<open>Updating an admin\<close>

text \<open>
  Claim C7. When the lookup by username answers, \<open>UpdateAdminInfo\<close> and
  \<open>ForceUpdateAdminInfoBySuperAdmin\<close> return \<open>ItemAlreadyExist\<close> exactly when the user
  that owns the requested username (the row the lookup returns) has an id other than the
  target's; in particular not when the owner is the target itself. Where usernames are
  unique in the store, the owner is any user of the store with that username.
\<close>

theorem username_conflict_rule:
  assumes "UserGetByUsernameFault e = None"
  shows "(snd (UpdateAdminInfo e w ui) = Some ItemAlreadyExist \<longleftrightarrow>
            (\<exists>x. userByUsername (users w) (ui_Username ui) = Some x \<and> Id x \<noteq> ui_UserId ui)) \<and>
         (snd (ForceUpdateAdminInfoBySuperAdmin e w fu) = Some ItemAlreadyExist \<longleftrightarrow>
            (\<exists>x. userByUsername (users w) (fu_Username fu) = Some x \<and> Id x \<noteq> fu_UserId fu)) \<and>
         (\<forall>x. userByUsername (users w) (ui_Username ui) = Some x \<and> Id x = ui_UserId ui \<longrightarrow>
            snd (UpdateAdminInfo e w ui) \<noteq> Some ItemAlreadyExist) \<and>
         (\<forall>x. userByUsername (users w) (fu_Username fu) = Some x \<and> Id x = fu_UserId fu \<longrightarrow>
            snd (ForceUpdateAdminInfoBySuperAdmin e w fu) \<noteq> Some ItemAlreadyExist) \<and>
         (distinct (map Username (users w)) \<longrightarrow>
            (snd (UpdateAdminInfo e w ui) = Some ItemAlreadyExist \<longleftrightarrow>
               (\<exists>x\<in>set (users w). Username x = ui_Username ui \<and> Id x \<noteq> ui_UserId ui)) \<and>
            (snd (ForceUpdateAdminInfoBySuperAdmin e w fu) = Some ItemAlreadyExist \<longleftrightarrow>
               (\<exists>x\<in>set (users w). Username x = fu_Username fu \<and> Id x \<noteq> fu_UserId fu)))"
proof -
  note upd = UpdateAdminInfo_conflict [OF assms, of w ui]
  note force = ForceUpdate_conflict [OF assms, of w fu]
  have own_upd: "\<forall>x. userByUsername (users w) (ui_Username ui) = Some x \<and> Id x = ui_UserId ui \<longrightarrow>
      snd (UpdateAdminInfo e w ui) \<noteq> Some ItemAlreadyExist"
    using upd by auto
  have own_force: "\<forall>x. userByUsername (users w) (fu_Username fu) = Some x \<and> Id x = fu_UserId fu \<longrightarrow>
      snd (ForceUpdateAdminInfoBySuperAdmin e w fu) \<noteq> Some ItemAlreadyExist"
    using force by auto
  have uniq: "distinct (map Username (users w)) \<longrightarrow>
      (snd (UpdateAdminInfo e w ui) = Some ItemAlreadyExist \<longleftrightarrow>
         (\<exists>x\<in>set (users w). Username x = ui_Username ui \<and> Id x \<noteq> ui_UserId ui)) \<and>
      (snd (ForceUpdateAdminInfoBySuperAdmin e w fu) = Some ItemAlreadyExist \<longleftrightarrow>
         (\<exists>x\<in>set (users w). Username x = fu_Username fu \<and> Id x \<noteq> fu_UserId fu))"
  proof
    assume d: "distinct (map Username (users w))"
    show "(snd (UpdateAdminInfo e w ui) = Some ItemAlreadyExist \<longleftrightarrow>
         (\<exists>x\<in>set (users w). Username x = ui_Username ui \<and> Id x \<noteq> ui_UserId ui)) \<and>
      (snd (ForceUpdateAdminInfoBySuperAdmin e w fu) = Some ItemAlreadyExist \<longleftrightarrow>
         (\<exists>x\<in>set (users w). Username x = fu_Username fu \<and> Id x \<noteq> fu_UserId fu))"
      unfolding upd force userByUsername_unique [OF d]
      by blast
  qed
  from upd force own_upd own_force uniq show ?thesis
    by blast
qed

theorem username_conflict_rule_witness:
  "UserGetByUsernameFault demoEnv = None \<and>
   distinct (map Username (users demoWorld)) \<and>
   userByUsername (users demoWorld) (ui_Username stealUsernameIn) = Some demoCustomer \<and>
   Id demoCustomer \<noteq> ui_UserId stealUsernameIn \<and>
   snd (UpdateAdminInfo demoEnv demoWorld stealUsernameIn) = Some ItemAlreadyExist \<and>
   snd (ForceUpdateAdminInfoBySuperAdmin demoEnv demoWorld forceStealIn) = Some ItemAlreadyExist \<and>
   userByUsername (users demoWorld) (ui_Username renameAdminIn) = Some demoAdmin \<and>
   Id demoAdmin = ui_UserId renameAdminIn \<and>
   snd (UpdateAdminInfo demoEnv demoWorld renameAdminIn) = None \<and>
   snd (ForceUpdateAdminInfoBySuperAdmin demoEnv demoWorld forceRenameIn) = None"
  using username_conflict_rule [where e = demoEnv and w = demoWorld and ui = stealUsernameIn
      and fu = forceStealIn]
    username_conflict_rule [where e = demoEnv and w = demoWorld and ui = renameAdminIn
      and fu = forceRenameIn]
  by (simp add: demo_defs lookup_defs UpdateAdminInfo_def ForceUpdateAdminInfoBySuperAdmin_def
      userRepo_GetByUsername_def userRepo_GetById_def checkUsernameOwner_def loadTarget_def
      ExistsAdmin_def LoadManagerInfo_def managerRepo_GetById_def UpdateManagerInfo_def
      UpdatePassword_def saveUserAndManager_def userRepo_Save_def managerRepo_Save_def
      errgroup_Wait_def record_call_def)

text \<open>
  Claim C8. The pair of concurrent saves returns no error exactly when both saves
  succeed, in either order of completion. In \<open>UpdateAdminInfo\<close> and
  \<open>ForceUpdateAdminInfoBySuperAdmin\<close>, a failing user save or a failing manager save
  makes the operation return an error; and when the operation returns no error, both
  saves have succeeded and its result is that of the pair of saves.
\<close>

theorem both_saves_decide_update_result:
  "(snd (saveUserAndManager e w u m) = None \<longleftrightarrow>
      UserSaveFault e = None \<and> ManagerSaveFault e = None) \<and>
   (UserSaveFault e \<noteq> None \<or> ManagerSaveFault e \<noteq> None \<longrightarrow>
      snd (UpdateAdminInfo e w ui) \<noteq> None \<and>
      snd (ForceUpdateAdminInfoBySuperAdmin e w fu) \<noteq> None) \<and>
   (snd (UpdateAdminInfo e w ui) = None \<longrightarrow>
      UserSaveFault e = None \<and> ManagerSaveFault e = None \<and>
      (\<exists>w3 u2 m. UpdateAdminInfo e w ui = saveUserAndManager e w3 u2 m)) \<and>
   (snd (ForceUpdateAdminInfoBySuperAdmin e w fu) = None \<longrightarrow>
      UserSaveFault e = None \<and> ManagerSaveFault e = None \<and>
      (\<exists>w3 u2 m. ForceUpdateAdminInfoBySuperAdmin e w fu = saveUserAndManager e w3 u2 m))"
  using UpdateAdminInfo_cases [of e w ui] ForceUpdate_cases [of e w fu]
    saveUserAndManager_result
  by metis

theorem both_saves_decide_update_result_witness:
  "snd (UpdateAdminInfo demoEnv demoWorld renameAdminIn) = None \<and>
   users (fst (UpdateAdminInfo demoEnv demoWorld renameAdminIn)) = [demoAdmin, demoCustomer] \<and>
   managers (fst (UpdateAdminInfo demoEnv demoWorld renameAdminIn)) =
     [\<lparr>ManagerId = 1, Name = ''Kim J'', Nickname = ''KJ'', ManagerUsername = ''a@b.com''\<rparr>] \<and>
   UserSaveFault userSaveFailsEnv \<noteq> None \<and>
   snd (UpdateAdminInfo userSaveFailsEnv demoWorld renameAdminIn) =
     Some (RepoError ''connection lost'') \<and>
   snd (ForceUpdateAdminInfoBySuperAdmin userSaveFailsEnv demoWorld forceRenameIn) =
     Some (RepoError ''connection lost'') \<and>
   ManagerSaveFault managerSaveFailsEnv \<noteq> None \<and>
   snd (UpdateAdminInfo managerSaveFailsEnv demoWorld renameAdminIn) =
     Some (RepoError ''connection lost'') \<and>
   snd (ForceUpdateAdminInfoBySuperAdmin managerSaveFailsEnv demoWorld forceRenameIn) =
     Some (RepoError ''connection lost'')"
  using both_saves_decide_update_result [where e = demoEnv and w = demoWorld
      and ui = renameAdminIn and fu = forceRenameIn]
    both_saves_decide_update_result [where e = userSaveFailsEnv and w = demoWorld
      and ui = renameAdminIn and fu = forceRenameIn]
    both_saves_decide_update_result [where e = managerSaveFailsEnv and w = demoWorld
      and ui = renameAdminIn and fu = forceRenameIn]
  by (simp add: demo_defs lookup_defs UpdateAdminInfo_def ForceUpdateAdminInfoBySuperAdmin_def
      userRepo_GetByUsername_def userRepo_GetById_def checkUsernameOwner_def loadTarget_def
      ExistsAdmin_def LoadManagerInfo_def managerRepo_GetById_def UpdateManagerInfo_def
      UpdatePassword_def saveUserAndManager_def userRepo_Save_def managerRepo_Save_def
      errgroup_Wait_def record_call_def)

end
